theory Spec2Isabelle
  imports Main "HOL-Library.AList"
begin

text \<open>
  A model of \<^verbatim>\<open>src/webui/index.js\<close> of ipfs-desktop: the module that keeps the one window
  of the web UI, builds the URL it loads, and rewrites the headers of its HTTP requests
  and responses. Every function and handler of the module is a definition below, under
  its own name; the module's variables, the settings store and the part of Electron the
  module depends on are an explicit state. The call of \<^verbatim>\<open>serve\<close> at load time and the
  constant \<^verbatim>\<open>webPreferences\<close> of the window have no effect on that state and are left out.
\<close>

section \<open>JavaScript values\<close>

text \<open>
  The module is dynamically typed. The values it handles
  (settings, the daemon address, the navigation path) are modelled by one datatype.
  An object is known by its identity and by what its \<^verbatim>\<open>toString()\<close> returns, which is
  all the module ever uses of a Multiaddr object. Numbers are the integers (window
  sizes); \<^verbatim>\<open>NaN\<close> and fractions do not occur in this module.
\<close>

datatype jsval =
    JUndefined
  | JNull
  | JBool bool
  | JNum int
  | JStr string
  | JObj nat string

text \<open>Truthiness, as \<^verbatim>\<open>if (v)\<close> and \<^verbatim>\<open>!v\<close> test it.\<close>

fun truthy :: "jsval \<Rightarrow> bool" where
  "truthy JUndefined = False"
| "truthy JNull = False"
| "truthy (JBool b) = b"
| "truthy (JNum n) = (n \<noteq> 0)"
| "truthy (JStr s) = (s \<noteq> [])"
| "truthy (JObj i s) = True"

text \<open>Decimal digits of a natural number, for the string form of a number.\<close>

fun natStr :: "nat \<Rightarrow> string" where
  "natStr n =
     (if n < 10 then [char_of (48 + n)]
      else natStr (n div 10) @ [char_of (48 + n mod 10)])"

declare natStr.simps [simp del]

text \<open>
  The string conversion JavaScript applies when a value is interpolated into a template
  literal, assigned to \<^verbatim>\<open>url.hash\<close> or passed to \<^verbatim>\<open>searchParams.set\<close>.
\<close>

fun toStr :: "jsval \<Rightarrow> string" where
  "toStr JUndefined = ''undefined''"
| "toStr JNull = ''null''"
| "toStr (JBool b) = (if b then ''true'' else ''false'')"
| "toStr (JNum n) = (if n < 0 then CHR ''-'' # natStr (nat (- n)) else natStr (nat n))"
| "toStr (JStr s) = s"
| "toStr (JObj i s) = s"

section \<open>The URL object\<close>

text \<open>
  \<^verbatim>\<open>const url = new URL('/', 'webui://-')\<close>: the module only ever sets query parameters
  and the hash of this object and serialises it for \<^verbatim>\<open>loadURL\<close>. The record keeps the
  query as the ordered list of pairs of strings, and the fragment as the URL object
  stores it: none, or the percent-encoded string that follows the \<^verbatim>\<open>#\<close>. A serialised URL
  is identified with the record it was serialised from.
  \<^verbatim>\<open>searchParams.set\<close> replaces the value of a name that is present and appends the pair
  otherwise; the module adds parameters in no other way, so no name occurs twice.
\<close>

record url =
  params :: "(string \<times> string) list"
  hash :: "string option"

definition searchParams_set :: "string \<Rightarrow> jsval \<Rightarrow> url \<Rightarrow> url" where
  "searchParams_set k v u = u\<lparr>params := AList.update k (toStr v) (params u)\<rparr>"

definition searchParams_get :: "string \<Rightarrow> url \<Rightarrow> string option" where
  "searchParams_get k u = map_of (params u) k"

text \<open>
  The hash setter of the URL Standard, which \<^verbatim>\<open>url.hash = path\<close> runs. The empty string
  removes the fragment. Otherwise one leading \<^verbatim>\<open>#\<close> is dropped and the rest is parsed as
  a fragment: tabs and newlines are removed, and every byte of the fragment
  percent-encode set (the C0 controls, everything above \<^verbatim>\<open>~\<close>, space, the double quote,
  \<^verbatim>\<open><\<close>, \<^verbatim>\<open>>\<close> and the backquote) is written as \<^verbatim>\<open>%\<close> and two upper-case hexadecimal
  digits. A string is its UTF-8 bytes.
\<close>

definition tabOrNewline :: "char \<Rightarrow> bool" where
  "tabOrNewline c \<longleftrightarrow> (of_char c :: nat) \<in> {9, 10, 13}"

definition fragmentEncodeSet :: "char \<Rightarrow> bool" where
  "fragmentEncodeSet c \<longleftrightarrow>
     (of_char c :: nat) < 32 \<or> 126 < (of_char c :: nat) \<or> (of_char c :: nat) \<in> {32, 34, 60, 62, 96}"

definition hexDigit :: "nat \<Rightarrow> char" where
  "hexDigit n = char_of (if n < 10 then 48 + n else 55 + n)"

definition percentEncode :: "char \<Rightarrow> string" where
  "percentEncode c = [CHR ''%'', hexDigit (of_char c div 16), hexDigit (of_char c mod 16)]"

definition fragmentOf :: "string \<Rightarrow> string" where
  "fragmentOf v =
     concat (map (\<lambda>c. if fragmentEncodeSet c then percentEncode c else [c])
               (filter (\<lambda>c. \<not> tabOrNewline c) v))"

definition set_hash :: "jsval \<Rightarrow> url \<Rightarrow> url" where
  "set_hash p u =
     (case toStr p of
        [] \<Rightarrow> u\<lparr>hash := None\<rparr>
      | c # r \<Rightarrow> u\<lparr>hash := Some (fragmentOf (if c = CHR ''#'' then r else c # r))\<rparr>)"

section \<open>What the module is given\<close>

text \<open>
  The libraries and constants the module requires are not part of this file and are
  parameters of the model: \<^verbatim>\<open>ctx.countlyDeviceId\<close>, \<^verbatim>\<open>VERSION\<close> and \<^verbatim>\<open>ELECTRON_VERSION\<close>
  of \<^verbatim>\<open>../common/consts\<close>, the primary display's size, whether \<^verbatim>\<open>DEBUG\<close> matches
  \<^verbatim>\<open>/ipfs-desktop/\<close>, \<^verbatim>\<open>os.platform()\<close>, the function \<^verbatim>\<open>toUri\<close> of multiaddr-to-uri
  (with its \<^verbatim>\<open>assumeHttp\<close> option) and the \<^verbatim>\<open>origin\<close> of \<^verbatim>\<open>new URL(s)\<close>. The last two
  can throw, so they return a sum.
\<close>

datatype error = TypeError | LibraryError string

record env =
  countlyDeviceId :: jsval
  VERSION :: string
  ELECTRON_VERSION :: string
  displayWidth :: int
  displayHeight :: int
  debugDevTools :: bool
  platform :: string
  toUri :: "jsval \<Rightarrow> bool \<Rightarrow> error + string"
  urlOrigin :: "string \<Rightarrow> error + string"

section \<open>apiOrigin\<close>

text \<open>
  \<^verbatim>\<open>if (!apiMultiaddr) return 'null'\<close>, then
  \<^verbatim>\<open>new URL(toUri(apiMultiaddr, { assumeHttp: true })).origin\<close>.
\<close>

definition apiOrigin :: "env \<Rightarrow> jsval \<Rightarrow> error + string" where
  "apiOrigin e apiMultiaddr =
     (if \<not> truthy apiMultiaddr then Inr ''null''
      else case toUri e apiMultiaddr True of
             Inl err \<Rightarrow> Inl err
           | Inr apiUri \<Rightarrow> urlOrigin e apiUri)"

section \<open>The settings store\<close>

text \<open>
  The module \<^verbatim>\<open>../common/store\<close> is not part of this file. The settings are the list of
  the keys that were set, each with its value.
\<close>

type_synonym settings = "(string \<times> jsval) list"

text \<open>
  Modelled from the spec: \<^verbatim>\<open>get(key, default)\<close> of the persisted key-value settings store,
  which is missing from the sources. A key that was never set reads as the default,
  \<^verbatim>\<open>undefined\<close> when the caller gives none.
\<close>

definition store_get :: "settings \<Rightarrow> string \<Rightarrow> jsval \<Rightarrow> jsval" where
  "store_get st k d = (case map_of st k of None \<Rightarrow> d | Some v \<Rightarrow> v)"

text \<open>
  Modelled from the spec: \<^verbatim>\<open>set(key, value)\<close> of the same store, which is missing from the
  sources. The value replaces the one stored under the key.
\<close>

definition store_set :: "string \<Rightarrow> jsval \<Rightarrow> settings \<Rightarrow> settings" where
  "store_set k v st = AList.update k v st"

definition CONFIG_KEY :: string where
  "CONFIG_KEY = ''openWebUIAtLaunch''"

section \<open>The module's state and what it does to the host\<close>

text \<open>
  Everything the module does to its collaborators (the windows, the dock, the logger,
  the renderer) is appended to a log of effects, in the order of the calls. A window is
  known by its number: the \<open>n\<close>-th \<^verbatim>\<open>new BrowserWindow\<close> is window \<open>n\<close>.
\<close>

datatype effect =
    OpenExternal
  | NewWindow nat jsval jsval
  | OpenDevTools nat
  | LoadURL nat url
  | Reload nat
  | Show nat
  | Focus nat
  | DockShow
  | DockHide
  | LogInfo string
  | LogError string
  | SendConfig nat string settings
  | Uncaught error

text \<open>
  \<^verbatim>\<open>launchWindow\<close> is suspended at \<^verbatim>\<open>await getWindow()\<close> while a new window is not yet
  ready to show. A frame is such a suspended call with its arguments
  \<^verbatim>\<open>path\<close>, \<^verbatim>\<open>focus\<close> and \<^verbatim>\<open>forceRefresh\<close>.
\<close>

datatype frame = LaunchFrame jsval bool bool

text \<open>
  The closure's variables \<^verbatim>\<open>window\<close>, \<^verbatim>\<open>apiAddress\<close> and \<^verbatim>\<open>url\<close>, the settings store,
  and the part of the host runtime the module depends on: the windows that exist
  (created and not yet closed), how many were created, the windows whose
  \<^verbatim>\<open>once('close')\<close> listener is still attached, and the windows whose
  \<^verbatim>\<open>once('ready-to-show')\<close> listener is still attached, each with the calls that wait for
  its promise (innermost first).
\<close>

record state =
  window :: "nat option"
  apiAddress :: jsval
  url :: url
  store :: settings
  live :: "nat list"
  created :: nat
  closeListeners :: "nat list"
  readyListeners :: "(nat \<times> frame list) list"
  effects :: "effect list"

definition emit :: "effect \<Rightarrow> state \<Rightarrow> state" where
  "emit x s = s\<lparr>effects := effects s @ [x]\<rparr>"

subsection \<open>createWindow\<close>

text \<open>
  The window gets the stored size, or the display's size capped at 1440 by 900. The
  listeners for \<^verbatim>\<open>crashed\<close>, \<^verbatim>\<open>unresponsive\<close> and \<^verbatim>\<open>resize\<close> stay attached for as long as
  the window exists, and the listener for the application's \<^verbatim>\<open>before-quit\<close> for good;
  they are the handlers \<open>onCrashed\<close>, \<open>onUnresponsive\<close>, \<open>onResize\<close> and \<open>onBeforeQuit\<close>
  below. \<open>onCrashed\<close> and \<open>onUnresponsive\<close> are given what \<^verbatim>\<open>event.toString()\<close> returns,
  \<open>onResize\<close> what \<^verbatim>\<open>window.getSize()\<close> returns.
\<close>

definition createWindow :: "env \<Rightarrow> state \<Rightarrow> nat \<times> state" where
  "createWindow e s =
     (let n = created s;
          width = store_get (store s) ''window.width''
                    (JNum (if displayWidth e < 1440 then displayWidth e else 1440));
          height = store_get (store s) ''window.height''
                    (JNum (if displayHeight e < 900 then displayHeight e else 900));
          s1 = emit (NewWindow n width height) (s\<lparr>created := Suc n, live := n # live s\<rparr>);
          s2 = (if debugDevTools e then emit (OpenDevTools n) s1 else s1)
      in (n, s2))"

definition onCrashed :: "string \<Rightarrow> state \<Rightarrow> state" where
  "onCrashed event s = emit (LogError (''[web ui] crashed: '' @ event)) s"

definition onUnresponsive :: "string \<Rightarrow> state \<Rightarrow> state" where
  "onUnresponsive event s = emit (LogError (''[web ui] unresponsive: '' @ event)) s"

definition onResize :: "int \<Rightarrow> int \<Rightarrow> state \<Rightarrow> state" where
  "onResize w h s =
     s\<lparr>store := store_set ''window.height'' (JNum h) (store_set ''window.width'' (JNum w) (store s))\<rparr>"

text \<open>\<^verbatim>\<open>window.removeAllListeners('close')\<close>, for the window \<open>n\<close> the handler was created with.\<close>

definition onBeforeQuit :: "nat \<Rightarrow> state \<Rightarrow> state" where
  "onBeforeQuit n s = s\<lparr>closeListeners := removeAll n (closeListeners s)\<rparr>"

subsection \<open>Closing a window\<close>

text \<open>
  \<open>closeWindow\<close> is the host's part: \<^verbatim>\<open>BrowserWindow.close()\<close>, or the user closing the
  window. The \<^verbatim>\<open>close\<close> event is emitted; a \<^verbatim>\<open>once\<close> listener is detached before it is
  called; no listener of this module prevents the default, so the window is destroyed
  afterwards. \<open>onClose\<close> is the module's listener, which itself calls
  \<^verbatim>\<open>myself.close()\<close>.
\<close>

definition destroy :: "nat \<Rightarrow> state \<Rightarrow> state" where
  "destroy n s =
     s\<lparr>live := removeAll n (live s),
       closeListeners := removeAll n (closeListeners s),
       readyListeners := AList.delete n (readyListeners s)\<rparr>"

function closeWindow :: "nat \<Rightarrow> state \<Rightarrow> state" and onClose :: "state \<Rightarrow> state" where
  "closeWindow n s =
     (if n \<in> set (live s) then
        (if n \<in> set (closeListeners s)
         then destroy n (onClose (s\<lparr>closeListeners := removeAll n (closeListeners s)\<rparr>))
         else destroy n s)
      else s)"
| "onClose s =
     (let myself = window s;
          s1 = s\<lparr>window := None\<rparr>;
          s2 = emit DockHide s1
      in case myself of
           None \<Rightarrow> emit (Uncaught TypeError) s2
         | Some m \<Rightarrow> closeWindow m s2)"
  by pat_completeness auto
termination
  by (relation "measure (\<lambda>x. case x of
                    Inl (n, s) \<Rightarrow> 2 * length (closeListeners s)
                  | Inr s \<Rightarrow> 2 * length (closeListeners s) + 1)")
     (auto simp: emit_def dest: length_removeAll_less)

declare closeWindow.simps [simp del] onClose.simps [simp del]

subsection \<open>getWindow\<close>

definition updateLanguage :: "state \<Rightarrow> state" where
  "updateLanguage s =
     s\<lparr>url := searchParams_set ''lng'' (store_get (store s) ''language'' JUndefined) (url s)\<rparr>"

text \<open>
  \<^verbatim>\<open>getWindow\<close> returns the existing window at once. Otherwise it creates one, attaches
  the two \<^verbatim>\<open>once\<close> listeners, loads the URL and waits for \<^verbatim>\<open>ready-to-show\<close>: the result
  \<open>Creating n\<close> is the pending promise for window \<open>n\<close>, and \<open>waiting\<close>, the suspended calls
  of the caller, are kept with the listener that will resolve it.
\<close>

datatype getWindowResult = Existing nat | Creating nat

definition getWindow :: "env \<Rightarrow> frame list \<Rightarrow> state \<Rightarrow> getWindowResult \<times> state" where
  "getWindow e waiting s =
     (case window s of
        Some w \<Rightarrow> (Existing w, s)
      | None \<Rightarrow>
          (let (n, s1) = createWindow e s;
               s2 = s1\<lparr>window := Some n\<rparr>;
               s3 = s2\<lparr>closeListeners := n # closeListeners s2\<rparr>;
               s4 = s3\<lparr>readyListeners := (n, waiting) # readyListeners s3\<rparr>;
               s5 = updateLanguage s4;
               s6 = emit (LoadURL n (url s5)) s5
           in (Creating n, s6)))"

subsection \<open>launchWindow\<close>

text \<open>
  \<open>launchBody\<close> is \<^verbatim>\<open>launchWindow\<close> after \<^verbatim>\<open>await getWindow()\<close>, with \<open>win\<close> the value that
  was returned. A method call on \<^verbatim>\<open>null\<close> throws a TypeError, which ends the call: the
  result is \<open>False\<close> with the state at the throw.
\<close>

definition launchBody :: "jsval \<Rightarrow> bool \<Rightarrow> bool \<Rightarrow> nat option \<Rightarrow> state \<Rightarrow> bool \<times> state" where
  "launchBody path focus forceRefresh win s =
     (case win of
        Some w \<Rightarrow>
          (let s1 = (if forceRefresh then emit (Reload w) s else s);
               s2 = (if \<not> truthy path then emit (LogInfo ''[web ui] launching web ui'') s1
                     else (let s2a = emit (LogInfo (''[web ui] navigate to '' @ toStr path)) s1;
                               s2b = s2a\<lparr>url := set_hash path (url s2a)\<rparr>
                           in emit (LoadURL w (url s2b)) s2b));
               s3 = (if focus then emit DockShow (emit (Focus w) (emit (Show w) s2)) else s2);
               s4 = (if truthy path then emit (LoadURL w (url s3)) s3 else s3)
           in (True, s4))
      | None \<Rightarrow>
          (if forceRefresh then (False, emit (Uncaught TypeError) s)
           else if \<not> truthy path then
             (let s2 = emit (LogInfo ''[web ui] launching web ui'') s
              in if focus then (False, emit (Uncaught TypeError) s2) else (True, s2))
           else
             (let s2a = emit (LogInfo (''[web ui] navigate to '' @ toStr path)) s;
                  s2b = s2a\<lparr>url := set_hash path (url s2a)\<rparr>
              in (False, emit (Uncaught TypeError) s2b))))"

text \<open>
  When the promise of \<^verbatim>\<open>getWindow\<close> resolves, \<^verbatim>\<open>getWindow\<close> returns the value the variable
  \<^verbatim>\<open>window\<close> has by then, and the calls that waited go on, innermost first. A call that
  throws rejects its promise, and the calls waiting for it never go on.
\<close>

fun resume :: "frame list \<Rightarrow> state \<Rightarrow> state" where
  "resume [] s = s"
| "resume (LaunchFrame path focus forceRefresh # waiting) s =
     (case launchBody path focus forceRefresh (window s) s of
        (True, s') \<Rightarrow> resume waiting s'
      | (False, s') \<Rightarrow> s')"

text \<open>
  \<open>waiting\<close> are the calls suspended on this call of \<^verbatim>\<open>launchWindow\<close>: none for a call
  from outside the module.
\<close>

definition launchWindow ::
  "env \<Rightarrow> jsval \<Rightarrow> bool \<Rightarrow> bool \<Rightarrow> frame list \<Rightarrow> state \<Rightarrow> state" where
  "launchWindow e path focus forceRefresh waiting s =
     (case getWindow e (LaunchFrame path focus forceRefresh # waiting) s of
        (Existing w, s1) \<Rightarrow>
          (case launchBody path focus forceRefresh (Some w) s1 of
             (True, s2) \<Rightarrow> resume waiting s2
           | (False, s2) \<Rightarrow> s2)
      | (Creating n, s1) \<Rightarrow> s1)"

text \<open>
  The \<^verbatim>\<open>once('ready-to-show')\<close> listener:
  \<^verbatim>\<open>logger.info('[web ui] window ready'); launchWindow('/').then(resolve)\<close>.
\<close>

definition onReadyToShow :: "env \<Rightarrow> frame list \<Rightarrow> state \<Rightarrow> state" where
  "onReadyToShow e waiting s =
     launchWindow e (JStr ''/'') True False waiting (emit (LogInfo ''[web ui] window ready'') s)"

subsection \<open>The messages from the renderer\<close>

text \<open>
  The \<^verbatim>\<open>ipfsd\<close> handler after \<^verbatim>\<open>await ctx.getIpfsd(true)\<close>, which gave \<^verbatim>\<open>null\<close> or a daemon.
  \<^verbatim>\<open>!==\<close> on two objects compares their identities.
\<close>

record ipfsd =
  apiAddr :: jsval

definition onIpfsd :: "ipfsd option \<Rightarrow> state \<Rightarrow> state" where
  "onIpfsd d s =
     (case d of
        None \<Rightarrow> s
      | Some daemon \<Rightarrow>
          (if apiAddr daemon \<noteq> apiAddress s then
             (let s1 = s\<lparr>apiAddress := apiAddr daemon\<rparr>;
                  s2 = s1\<lparr>url := searchParams_set ''api'' (apiAddress s1) (url s1)\<rparr>;
                  s3 = updateLanguage s2
              in case window s3 of
                   Some w \<Rightarrow> emit (LoadURL w (url s3)) s3
                 | None \<Rightarrow> s3)
           else s))"

definition onConfigGet :: "env \<Rightarrow> state \<Rightarrow> state" where
  "onConfigGet e s =
     (case window s of
        Some w \<Rightarrow> emit (SendConfig w (platform e) (store s)) s
      | None \<Rightarrow> s)"

text \<open>The callback given to \<^verbatim>\<open>createToggler\<close>.\<close>

definition onToggle :: "jsval \<Rightarrow> state \<Rightarrow> state" where
  "onToggle newValue s = s\<lparr>store := store_set CONFIG_KEY newValue (store s)\<rparr>"

subsection \<open>The header interceptors\<close>

text \<open>
  \<^verbatim>\<open>onBeforeSendHeaders\<close>: the request headers are a dictionary of strings. The handler
  reads the module variable \<^verbatim>\<open>apiAddress\<close>. When \<^verbatim>\<open>apiOrigin\<close> throws, the callback is
  never called.
\<close>

record beforeSendResponse =
  cancel :: bool
  requestHeaders :: "(string \<times> string) list"

definition userAgent :: "env \<Rightarrow> string" where
  "userAgent e = ''ipfs-desktop/'' @ VERSION e @ '' (Electron '' @ ELECTRON_VERSION e @ '')''"

definition onBeforeSendHeaders ::
  "env \<Rightarrow> state \<Rightarrow> (string \<times> string) list \<Rightarrow> error + beforeSendResponse" where
  "onBeforeSendHeaders e s hs =
     (case apiOrigin e (apiAddress s) of
        Inl err \<Rightarrow> Inl err
      | Inr origin \<Rightarrow>
          Inr \<lparr>cancel = False,
               requestHeaders =
                 AList.update ''User-Agent'' (userAgent e) (AList.update ''Origin'' origin hs)\<rparr>)"

text \<open>
  \<^verbatim>\<open>onHeadersReceived\<close>: Electron passes \<^verbatim>\<open>details.responseHeaders\<close> as an optional
  dictionary from the header names, spelled as the server sent them, to lists of
  strings. A list is truthy in JavaScript even when empty, so \<^verbatim>\<open>responseHeaders[acao]\<close>
  is truthy exactly when the dictionary has the key. The handler assigns a plain
  string, so a delivered value is a list or a string.
\<close>

datatype hval = HArr "string list" | HStr string

definition webuiOrigin :: string where
  "webuiOrigin = ''webui://-''"

definition acao :: string where
  "acao = ''Access-Control-Allow-Origin''"

definition onHeadersReceived ::
  "(string \<times> string list) list option \<Rightarrow> (string \<times> hval) list option" where
  "onHeadersReceived responseHeaders =
     (case responseHeaders of
        None \<Rightarrow> None
      | Some hs \<Rightarrow>
          (case map_of hs acao of
             Some v \<Rightarrow> Some (AList.update acao (HStr webuiOrigin) (map (apsnd HArr) hs))
           | None \<Rightarrow> Some (map (apsnd HArr) hs)))"

subsection \<open>The exported function and the function it returns\<close>

definition init :: "env \<Rightarrow> settings \<Rightarrow> state" where
  "init e st =
     \<lparr>window = None,
      apiAddress = JNull,
      url = searchParams_set ''deviceId'' (countlyDeviceId e)
              (set_hash (JStr ''/blank'') \<lparr>params = [], hash = None\<rparr>),
      store = (if store_get st CONFIG_KEY JNull = JNull
               then store_set CONFIG_KEY (JBool True) st else st),
      live = [],
      created = 0,
      closeListeners = [],
      readyListeners = [],
      effects = [OpenExternal]\<rparr>"

definition startup :: "env \<Rightarrow> state \<Rightarrow> state" where
  "startup e s =
     (if truthy (store_get (store s) CONFIG_KEY JUndefined)
      then launchWindow e (JStr ''/'') True False [] s
      else s)"

section \<open>The module's lifetime\<close>

text \<open>
  JavaScript runs one handler to its end before the next event. An event is a call from
  the rest of the application (\<^verbatim>\<open>ctx.getWebUI\<close>, \<^verbatim>\<open>ctx.launchWebUI\<close>, the returned start-up
  function, the toggler), an event of a window that exists or of the application, a
  message from the renderer, or another module writing a setting: the store is shared
  with the whole application.
\<close>

datatype event =
    GetWebUI
  | LaunchWebUI jsval bool bool
  | Startup
  | Close nat
  | ReadyToShow nat
  | Resize nat int int
  | Crashed nat string
  | Unresponsive nat string
  | BeforeQuit
  | WindowAllClosed
  | Ipfsd "ipfsd option"
  | ConfigGet
  | Toggle jsval
  | StoreWrite string jsval

definition step :: "env \<Rightarrow> event \<Rightarrow> state \<Rightarrow> state" where
  "step e ev s =
     (case ev of
        GetWebUI \<Rightarrow> snd (getWindow e [] s)
      | LaunchWebUI path focus forceRefresh \<Rightarrow> launchWindow e path focus forceRefresh [] s
      | Startup \<Rightarrow> startup e s
      | Close n \<Rightarrow> closeWindow n s
      | ReadyToShow n \<Rightarrow>
          (if n \<in> set (live s) then
             (case map_of (readyListeners s) n of
                Some waiting \<Rightarrow>
                  onReadyToShow e waiting (s\<lparr>readyListeners := AList.delete n (readyListeners s)\<rparr>)
              | None \<Rightarrow> s)
           else s)
      | Resize n w h \<Rightarrow> (if n \<in> set (live s) then onResize w h s else s)
      | Crashed n x \<Rightarrow> (if n \<in> set (live s) then onCrashed x s else s)
      | Unresponsive n x \<Rightarrow> (if n \<in> set (live s) then onUnresponsive x s else s)
      | BeforeQuit \<Rightarrow> fold onBeforeQuit [0..<created s] s
      | WindowAllClosed \<Rightarrow> s
      | Ipfsd d \<Rightarrow> onIpfsd d s
      | ConfigGet \<Rightarrow> onConfigGet e s
      | Toggle v \<Rightarrow> onToggle v s
      | StoreWrite k v \<Rightarrow> s\<lparr>store := store_set k v (store s)\<rparr>)"

definition run :: "env \<Rightarrow> event list \<Rightarrow> state \<Rightarrow> state" where
  "run e evs s = foldl (\<lambda>s' ev. step e ev s') s evs"

inductive reachable :: "env \<Rightarrow> state \<Rightarrow> bool" for e :: env where
  reachable_init: "reachable e (init e st)"
| reachable_step: "reachable e s \<Longrightarrow> reachable e (step e ev s)"

text \<open>
  The URL most recently loaded into window \<open>n\<close>: that of the last \<open>LoadURL n\<close> in the log
  of effects.
\<close>

fun loadedURL :: "nat \<Rightarrow> effect list \<Rightarrow> url option" where
  "loadedURL n [] = None"
| "loadedURL n (x # xs) =
     (case loadedURL n xs of
        Some u \<Rightarrow> Some u
      | None \<Rightarrow> (case x of LoadURL m u \<Rightarrow> (if m = n then Some u else None) | _ \<Rightarrow> None))"

text \<open>An environment and settings to run the module on.\<close>

definition env0 :: env where
  "env0 =
     \<lparr>countlyDeviceId = JStr ''device-1'',
      VERSION = ''0.13.2'',
      ELECTRON_VERSION = ''11.1.1'',
      displayWidth = 1920,
      displayHeight = 1080,
      debugDevTools = False,
      platform = ''linux'',
      toUri = (\<lambda>a h. case a of
                 JStr s \<Rightarrow> (if s = ''/ip4/127.0.0.1/tcp/5001'' \<and> h
                            then Inr ''http://127.0.0.1:5001''
                            else Inl (LibraryError ''toUri''))
               | JObj i s \<Rightarrow> (if s = ''/ip4/127.0.0.1/tcp/5001'' \<and> h
                            then Inr ''http://127.0.0.1:5001''
                            else Inl (LibraryError ''toUri''))
               | _ \<Rightarrow> Inl (LibraryError ''toUri'')),
      urlOrigin = (\<lambda>u. if u = ''http://127.0.0.1:5001'' then Inr ''http://127.0.0.1:5001''
                        else Inl (LibraryError ''URL''))\<rparr>"

definition settings0 :: settings where
  "settings0 = [(''language'', JStr ''en'')]"

text \<open>
  What holds at every point of the module's lifetime: a window that exists is the one
  the variable \<^verbatim>\<open>window\<close> refers to; the window referred to was created by the module;
  the URL object carries the device identifier, and the daemon address once one is
  remembered; and while the variable refers to a window, the URL object has a locale
  and is the URL that was last loaded into that window.
\<close>

definition invariant :: "env \<Rightarrow> state \<Rightarrow> bool" where
  "invariant e s \<longleftrightarrow>
     (\<forall>n \<in> set (live s). window s = Some n) \<and>
     distinct (live s) \<and>
     (\<forall>w. window s = Some w \<longrightarrow> w < created s) \<and>
     searchParams_get ''deviceId'' (url s) = Some (toStr (countlyDeviceId e)) \<and>
     (apiAddress s \<noteq> JNull \<longrightarrow> searchParams_get ''api'' (url s) = Some (toStr (apiAddress s))) \<and>
     (\<forall>w. window s = Some w \<longrightarrow>
        searchParams_get ''lng'' (url s) \<noteq> None \<and> loadedURL w (effects s) = Some (url s))"




section \<open>Lemmas\<close>

lemma params_set_hash [simp]: "params (set_hash p u) = params u"
  by (simp add: set_hash_def split: list.splits)


lemma fragmentOf_Cons:
  "fragmentOf (c # v) =
     (if tabOrNewline c then fragmentOf v
      else if fragmentEncodeSet c then percentEncode c @ fragmentOf v
      else c # fragmentOf v)"
  by (simp add: fragmentOf_def)

lemma fragmentOf_Nil: "fragmentOf [] = []"
  by (simp add: fragmentOf_def)

lemma loadedURL_append [simp]:
  "loadedURL n (xs @ ys) = (case loadedURL n ys of Some u \<Rightarrow> Some u | None \<Rightarrow> loadedURL n xs)"
  by (induction xs) (auto split: option.splits)

lemma closeWindow_not_live: "n \<notin> set (live s) \<Longrightarrow> closeWindow n s = s"
  by (subst closeWindow.simps) simp

lemma closeWindow_current:
  assumes "n \<in> set (live s)" and "window s = Some n"
  shows "closeWindow n s =
           (if n \<in> set (closeListeners s)
            then destroy n (destroy n (emit DockHide
                   (s\<lparr>closeListeners := removeAll n (closeListeners s), window := None\<rparr>)))
            else destroy n s)"
proof (cases "n \<in> set (closeListeners s)")
  case False
  with assms show ?thesis by (subst closeWindow.simps) simp
next
  case True
  let ?s0 = "s\<lparr>closeListeners := removeAll n (closeListeners s)\<rparr>"
  let ?s2 = "emit DockHide (?s0\<lparr>window := None\<rparr>)"
  have inner: "closeWindow n ?s2 = destroy n ?s2"
    using assms by (subst closeWindow.simps) (simp add: emit_def)
  have "onClose ?s0 = closeWindow n ?s2"
    using assms by (subst onClose.simps) (simp add: Let_def)
  with inner have "onClose ?s0 = destroy n ?s2" by simp
  with True assms show ?thesis by (subst closeWindow.simps) simp
qed

lemma launchBody_frame:
  assumes "launchBody p f r win s = (ok, s')"
  shows "window s' = window s \<and> apiAddress s' = apiAddress s \<and> store s' = store s \<and>
         live s' = live s \<and> created s' = created s \<and> closeListeners s' = closeListeners s \<and>
         readyListeners s' = readyListeners s \<and> params (url s') = params (url s)"
  using assms
  by (auto simp: launchBody_def Let_def emit_def split: option.splits if_splits)

lemma launchBody_loaded:
  assumes "launchBody p f r (Some w) s = (ok, s')"
    and "loadedURL w (effects s) = Some (url s)"
  shows "loadedURL w (effects s') = Some (url s')"
  using assms
  by (auto simp: launchBody_def Let_def emit_def split: if_splits)

lemma resume_frame:
  "window (resume K s) = window s \<and> apiAddress (resume K s) = apiAddress s \<and>
   store (resume K s) = store s \<and> live (resume K s) = live s \<and>
   created (resume K s) = created s \<and> closeListeners (resume K s) = closeListeners s \<and>
   readyListeners (resume K s) = readyListeners s \<and>
   params (url (resume K s)) = params (url s)"
proof (induction K s rule: resume.induct)
  case (1 s)
  show ?case by simp
next
  case (2 path focus forceRefresh waiting s)
  obtain ok s' where b: "launchBody path focus forceRefresh (window s) s = (ok, s')"
    by (cases "launchBody path focus forceRefresh (window s) s")
  from launchBody_frame [OF b] 2 [OF b [symmetric]] b show ?case
    by (cases ok) auto
qed

lemma resume_loaded:
  "window s = Some w \<Longrightarrow> loadedURL w (effects s) = Some (url s) \<Longrightarrow>
   loadedURL w (effects (resume K s)) = Some (url (resume K s))"
proof (induction K s rule: resume.induct)
  case (1 s)
  then show ?case by simp
next
  case (2 path focus forceRefresh waiting s)
  obtain ok s' where b: "launchBody path focus forceRefresh (window s) s = (ok, s')"
    by (cases "launchBody path focus forceRefresh (window s) s")
  have l: "loadedURL w (effects s') = Some (url s')"
    using launchBody_loaded [of path focus forceRefresh w s ok s'] b 2 by simp
  have w: "window s' = Some w" using launchBody_frame [OF b] 2 by simp
  show ?case
  proof (cases ok)
    case True
    with 2(1) [OF b [symmetric]] b w l show ?thesis by simp
  next
    case False
    with b l show ?thesis by simp
  qed
qed

lemma invariant_frameI:
  assumes "invariant e s"
    and "window s' = window s" and "live s' = live s" and "created s' = created s"
    and "apiAddress s' = apiAddress s" and "params (url s') = params (url s)"
    and "\<And>w. window s = Some w \<Longrightarrow> loadedURL w (effects s) = Some (url s) \<Longrightarrow>
           loadedURL w (effects s') = Some (url s')"
  shows "invariant e s'"
  using assms unfolding invariant_def searchParams_get_def by simp

lemma invariant_launchBody:
  assumes "invariant e s" and "launchBody p f r (window s) s = (ok, s')"
  shows "invariant e s'"
proof (rule invariant_frameI [OF assms(1)])
  fix w
  assume "window s = Some w" and "loadedURL w (effects s) = Some (url s)"
  with assms(2) show "loadedURL w (effects s') = Some (url s')"
    using launchBody_loaded [of p f r w s ok s'] by simp
qed (use launchBody_frame [OF assms(2)] in simp_all)

lemma invariant_resume:
  assumes "invariant e s"
  shows "invariant e (resume K s)"
proof (rule invariant_frameI [OF assms])
  fix w
  assume "window s = Some w" and "loadedURL w (effects s) = Some (url s)"
  then show "loadedURL w (effects (resume K s)) = Some (url (resume K s))"
    by (rule resume_loaded)
qed (use resume_frame [of K s] in simp_all)

lemma getWindow_existing: "window s = Some w \<Longrightarrow> getWindow e K s = (Existing w, s)"
  by (simp add: getWindow_def)

lemma getWindow_creating:
  assumes "window s = None"
  shows "\<exists>s'. getWindow e K s = (Creating (created s), s') \<and>
           window s' = Some (created s) \<and> live s' = created s # live s \<and>
           created s' = Suc (created s) \<and> apiAddress s' = apiAddress s \<and>
           store s' = store s \<and>
           closeListeners s' = created s # closeListeners s \<and>
           readyListeners s' = (created s, K) # readyListeners s \<and>
           url s' = searchParams_set ''lng'' (store_get (store s) ''language'' JUndefined) (url s) \<and>
           loadedURL (created s) (effects s') = Some (url s') \<and>
           (\<exists>xs. effects s' = effects s @ xs @ [LoadURL (created s) (url s')])"
  using assms
  by (auto simp: getWindow_def createWindow_def Let_def emit_def updateLanguage_def)

lemma invariant_getWindow:
  assumes "invariant e s"
  shows "invariant e (snd (getWindow e K s))"
proof (cases "window s")
  case (Some w)
  with assms show ?thesis by (simp add: getWindow_existing)
next
  case None
  from getWindow_creating [OF None, of e K] obtain s' where
    g: "getWindow e K s = (Creating (created s), s')"
    and f: "window s' = Some (created s)" "live s' = created s # live s"
       "created s' = Suc (created s)" "apiAddress s' = apiAddress s"
       "url s' = searchParams_set ''lng'' (store_get (store s) ''language'' JUndefined) (url s)"
       "loadedURL (created s) (effects s') = Some (url s')"
    by blast
  from assms None have "live s = []" by (cases "live s") (auto simp: invariant_def)
  with assms f have "invariant e s'"
    by (simp add: invariant_def searchParams_get_def searchParams_set_def update_conv')
  with g show ?thesis by simp
qed

lemma invariant_launchWindow:
  assumes "invariant e s"
  shows "invariant e (launchWindow e p f r K s)"
proof (cases "window s")
  case (Some w)
  obtain ok s' where b: "launchBody p f r (window s) s = (ok, s')"
    by (cases "launchBody p f r (window s) s")
  from invariant_launchBody [OF assms b] have i: "invariant e s'" .
  from b Some have "launchWindow e p f r K s = (if ok then resume K s' else s')"
    by (simp add: launchWindow_def getWindow_existing)
  with i invariant_resume [OF i, of K] show ?thesis by simp
next
  case None
  from getWindow_creating [OF None, of e "LaunchFrame p f r # K"] obtain s' where
    g: "getWindow e (LaunchFrame p f r # K) s = (Creating (created s), s')" by blast
  then have "launchWindow e p f r K s = snd (getWindow e (LaunchFrame p f r # K) s)"
    by (simp add: launchWindow_def)
  with invariant_getWindow [OF assms] show ?thesis by simp
qed

lemma fold_onBeforeQuit:
  "fold onBeforeQuit ns s = s\<lparr>closeListeners := fold removeAll ns (closeListeners s)\<rparr>"
  by (induction ns arbitrary: s) (simp_all add: onBeforeQuit_def)

lemma live_is_window:
  assumes "invariant e s" and "n \<in> set (live s)"
  shows "window s = Some n \<and> live s = [n]"
proof -
  from assms(1) have a: "\<forall>m \<in> set (live s). window s = Some m" by (simp add: invariant_def)
  with assms(2) have w: "window s = Some n" by blast
  have all: "m = n" if "m \<in> set (live s)" for m
    using a that w by fastforce
  from assms(1) have d: "distinct (live s)" by (simp add: invariant_def)
  obtain x xs where c: "live s = x # xs" using assms(2) by (cases "live s") auto
  have "x = n" using all [of x] c by simp
  moreover have "xs = []"
  proof (cases xs)
    case (Cons y ys)
    with c all [of y] \<open>x = n\<close> d show ?thesis by simp
  qed simp
  ultimately show ?thesis using w c by simp
qed

lemma invariant_closeWindow:
  assumes "invariant e s"
  shows "invariant e (closeWindow n s)"
proof (cases "n \<in> set (live s)")
  case False
  with assms show ?thesis by (simp add: closeWindow_not_live)
next
  case True
  from live_is_window [OF assms True] have w: "window s = Some n" and l: "live s = [n]"
    by simp_all
  from assms w l show ?thesis
    by (simp add: closeWindow_current [OF True w])
       (auto simp: invariant_def destroy_def emit_def searchParams_get_def)
qed

lemma invariant_init: "invariant e (init e st)"
  by (simp add: invariant_def init_def searchParams_get_def searchParams_set_def update_conv')

lemma invariant_step:
  assumes "invariant e s"
  shows "invariant e (step e ev s)"
proof (cases ev)
  case GetWebUI
  with invariant_getWindow [OF assms] show ?thesis by (simp add: step_def)
next
  case (LaunchWebUI p f r)
  with invariant_launchWindow [OF assms] show ?thesis by (simp add: step_def)
next
  case Startup
  with invariant_launchWindow [OF assms] assms show ?thesis by (simp add: step_def startup_def)
next
  case (Close n)
  with invariant_closeWindow [OF assms] show ?thesis by (simp add: step_def)
next
  case (ReadyToShow n)
  have "invariant e (emit (LogInfo ''[web ui] window ready'')
                       (s\<lparr>readyListeners := AList.delete n (readyListeners s)\<rparr>))"
    by (rule invariant_frameI [OF assms]) (simp_all add: emit_def)
  from invariant_launchWindow [OF this] ReadyToShow assms show ?thesis
    by (simp add: step_def onReadyToShow_def split: option.splits)
next
  case (Resize n w h)
  have "invariant e (onResize w h s)"
    by (rule invariant_frameI [OF assms]) (simp_all add: onResize_def)
  with Resize assms show ?thesis by (simp add: step_def)
next
  case (Crashed n x)
  have "invariant e (onCrashed x s)"
    by (rule invariant_frameI [OF assms]) (simp_all add: onCrashed_def emit_def)
  with Crashed assms show ?thesis by (simp add: step_def)
next
  case (Unresponsive n x)
  have "invariant e (onUnresponsive x s)"
    by (rule invariant_frameI [OF assms]) (simp_all add: onUnresponsive_def emit_def)
  with Unresponsive assms show ?thesis by (simp add: step_def)
next
  case BeforeQuit
  have "invariant e (fold onBeforeQuit [0..<created s] s)"
    by (rule invariant_frameI [OF assms]) (simp_all add: fold_onBeforeQuit)
  with BeforeQuit show ?thesis by (simp add: step_def)
next
  case WindowAllClosed
  with assms show ?thesis by (simp add: step_def)
next
  case (Ipfsd d)
  from assms have "invariant e (onIpfsd d s)"
    by (auto simp: onIpfsd_def invariant_def Let_def updateLanguage_def emit_def
                   searchParams_get_def searchParams_set_def update_conv'
             split: option.splits)
  with Ipfsd show ?thesis by (simp add: step_def)
next
  case ConfigGet
  have "invariant e (onConfigGet e s)"
    by (rule invariant_frameI [OF assms]) (simp_all add: onConfigGet_def emit_def split: option.splits)
  with ConfigGet show ?thesis by (simp add: step_def)
next
  case (Toggle v)
  have "invariant e (onToggle v s)"
    by (rule invariant_frameI [OF assms]) (simp_all add: onToggle_def)
  with Toggle show ?thesis by (simp add: step_def)
next
  case (StoreWrite k v)
  have "invariant e (s\<lparr>store := store_set k v (store s)\<rparr>)"
    by (rule invariant_frameI [OF assms]) simp_all
  with StoreWrite show ?thesis by (simp add: step_def)
qed

lemma reachable_invariant: "reachable e s \<Longrightarrow> invariant e s"
  by (induction rule: reachable.induct) (simp_all add: invariant_init invariant_step)

lemma run_snoc: "run e (evs @ [ev]) s = step e ev (run e evs s)"
  by (simp add: run_def)

lemma reachable_run: "reachable e (run e evs (init e st))"
proof (induction evs rule: rev_induct)
  case Nil
  show ?case by (simp add: run_def reachable_init)
next
  case (snoc ev evs)
  then show ?case by (simp add: run_snoc reachable_step)
qed

lemma launchWindow_existing_frame:
  assumes "window s = Some w"
  shows "window (launchWindow e p f r K s) = window s \<and>
         created (launchWindow e p f r K s) = created s \<and>
         live (launchWindow e p f r K s) = live s"
proof -
  obtain ok s' where b: "launchBody p f r (Some w) s = (ok, s')"
    by (cases "launchBody p f r (Some w) s")
  from b assms have "launchWindow e p f r K s = (if ok then resume K s' else s')"
    by (simp add: launchWindow_def getWindow_existing)
  with launchBody_frame [OF b] resume_frame [of K s'] show ?thesis by simp
qed

lemma closeWindow_frame:
  assumes "invariant e s"
  shows "created (closeWindow n s) = created s \<and> url (closeWindow n s) = url s \<and>
         apiAddress (closeWindow n s) = apiAddress s \<and> store (closeWindow n s) = store s"
proof (cases "n \<in> set (live s)")
  case False
  then show ?thesis by (simp add: closeWindow_not_live)
next
  case True
  from live_is_window [OF assms True] have w: "window s = Some n" by simp
  show ?thesis by (simp add: closeWindow_current [OF True w] destroy_def emit_def)
qed

lemma step_created:
  assumes "invariant e s" and "window s = Some w"
  shows "created (step e ev s) = created s"
proof (cases ev)
  case (Close n)
  with closeWindow_frame [OF assms(1)] show ?thesis by (simp add: step_def)
next
  case (ReadyToShow n)
  with assms(2) show ?thesis
    by (simp add: step_def onReadyToShow_def launchWindow_existing_frame emit_def
             split: option.splits)
next
  case (Ipfsd d)
  then show ?thesis
    by (simp add: step_def onIpfsd_def Let_def updateLanguage_def emit_def split: option.splits)
qed (use assms(2) in \<open>simp_all add: step_def getWindow_existing launchWindow_existing_frame
       startup_def onResize_def onCrashed_def onUnresponsive_def emit_def fold_onBeforeQuit
       onConfigGet_def onToggle_def\<close>)

lemma env0_fields:
  "countlyDeviceId env0 = JStr ''device-1''"
  "VERSION env0 = ''0.13.2''"
  "ELECTRON_VERSION env0 = ''11.1.1''"
  "displayWidth env0 = 1920"
  "displayHeight env0 = 1080"
  "debugDevTools env0 = False"
  "toUri env0 (JObj 7 ''/ip4/127.0.0.1/tcp/5001'') True = Inr ''http://127.0.0.1:5001''"
  "toUri env0 (JStr ''bogus'') True = Inl (LibraryError ''toUri'')"
  "urlOrigin env0 ''http://127.0.0.1:5001'' = Inr ''http://127.0.0.1:5001''"
  by (simp_all add: env0_def)

lemma set_hash_blank: "set_hash (JStr ''/blank'') u = u\<lparr>hash := Some ''/blank''\<rparr>"
  by (simp add: set_hash_def fragmentOf_Cons fragmentOf_Nil tabOrNewline_def fragmentEncodeSet_def)

lemma set_hash_root: "set_hash (JStr ''/'') u = u\<lparr>hash := Some ''/''\<rparr>"
  by (simp add: set_hash_def fragmentOf_Cons fragmentOf_Nil tabOrNewline_def fragmentEncodeSet_def)


lemma init_env0:
  "init env0 settings0 =
     \<lparr>window = None, apiAddress = JNull,
      url = \<lparr>params = [(''deviceId'', ''device-1'')], hash = Some ''/blank''\<rparr>,
      store = [(''language'', JStr ''en''), (''openWebUIAtLaunch'', JBool True)],
      live = [], created = 0, closeListeners = [], readyListeners = [],
      effects = [OpenExternal]\<rparr>"
  by (simp add: init_def env0_fields settings0_def store_get_def store_set_def CONFIG_KEY_def
                searchParams_set_def set_hash_blank)

lemma after_GetWebUI:
  "run env0 [GetWebUI] (init env0 settings0) =
     \<lparr>window = Some 0, apiAddress = JNull,
      url = \<lparr>params = [(''deviceId'', ''device-1''), (''lng'', ''en'')], hash = Some ''/blank''\<rparr>,
      store = [(''language'', JStr ''en''), (''openWebUIAtLaunch'', JBool True)],
      live = [0], created = 1, closeListeners = [0], readyListeners = [(0, [])],
      effects = [OpenExternal, NewWindow 0 (JNum 1440) (JNum 900),
                 LoadURL 0 \<lparr>params = [(''deviceId'', ''device-1''), (''lng'', ''en'')],
                            hash = Some ''/blank''\<rparr>]\<rparr>"
  by (simp add: run_def init_env0 step_def getWindow_def createWindow_def Let_def emit_def
                updateLanguage_def env0_fields store_get_def searchParams_set_def)

lemma after_Ipfsd:
  "run env0 [Ipfsd (Some \<lparr>apiAddr = JObj 7 ''/ip4/127.0.0.1/tcp/5001''\<rparr>)] (init env0 settings0) =
     \<lparr>window = None, apiAddress = JObj 7 ''/ip4/127.0.0.1/tcp/5001'',
      url = \<lparr>params = [(''deviceId'', ''device-1''), (''api'', ''/ip4/127.0.0.1/tcp/5001''),
                        (''lng'', ''en'')], hash = Some ''/blank''\<rparr>,
      store = [(''language'', JStr ''en''), (''openWebUIAtLaunch'', JBool True)],
      live = [], created = 0, closeListeners = [], readyListeners = [],
      effects = [OpenExternal]\<rparr>"
  by (simp add: run_def init_env0 step_def onIpfsd_def Let_def updateLanguage_def
                store_get_def searchParams_set_def)
















lemma after_GetWebUI_Ipfsd:
  "run env0 [GetWebUI, Ipfsd (Some \<lparr>apiAddr = JObj 7 ''/ip4/127.0.0.1/tcp/5001''\<rparr>)]
     (init env0 settings0) =
     \<lparr>window = Some 0, apiAddress = JObj 7 ''/ip4/127.0.0.1/tcp/5001'',
      url = \<lparr>params = [(''deviceId'', ''device-1''), (''lng'', ''en''),
                        (''api'', ''/ip4/127.0.0.1/tcp/5001'')], hash = Some ''/blank''\<rparr>,
      store = [(''language'', JStr ''en''), (''openWebUIAtLaunch'', JBool True)],
      live = [0], created = 1, closeListeners = [0], readyListeners = [(0, [])],
      effects = [OpenExternal, NewWindow 0 (JNum 1440) (JNum 900),
                 LoadURL 0 \<lparr>params = [(''deviceId'', ''device-1''), (''lng'', ''en'')],
                            hash = Some ''/blank''\<rparr>,
                 LoadURL 0 \<lparr>params = [(''deviceId'', ''device-1''), (''lng'', ''en''),
                                       (''api'', ''/ip4/127.0.0.1/tcp/5001'')],
                            hash = Some ''/blank''\<rparr>]\<rparr>"
proof -
  have "run env0 [GetWebUI, Ipfsd (Some \<lparr>apiAddr = JObj 7 ''/ip4/127.0.0.1/tcp/5001''\<rparr>)]
          (init env0 settings0) =
        step env0 (Ipfsd (Some \<lparr>apiAddr = JObj 7 ''/ip4/127.0.0.1/tcp/5001''\<rparr>))
          (run env0 [GetWebUI] (init env0 settings0))"
    by (simp add: run_def)
  then show ?thesis
    by (simp add: after_GetWebUI step_def onIpfsd_def Let_def updateLanguage_def emit_def
                  store_get_def searchParams_set_def)
qed

lemma delete_head: "AList.delete n ((n, K) # rl) = AList.delete n rl"
  by (simp add: AList.delete_eq)







section \<open>The properties of the specification\<close>

text \<open>
  C1: \<^verbatim>\<open>apiOrigin\<close> returns the string \<^verbatim>\<open>'null'\<close> when its argument is absent (\<^verbatim>\<open>null\<close>,
  \<^verbatim>\<open>undefined\<close>, the empty string: every argument JavaScript takes for false), and
  otherwise the origin of the URI that \<^verbatim>\<open>toUri\<close> derives from the argument with
  \<^verbatim>\<open>assumeHttp\<close> set; an error of \<^verbatim>\<open>toUri\<close> or of the URL parser is passed on.
\<close>

theorem apiOrigin_null_or_origin:
  "apiOrigin e JNull = Inr ''null'' \<and>
   apiOrigin e JUndefined = Inr ''null'' \<and>
   apiOrigin e (JStr []) = Inr ''null'' \<and>
   (\<not> truthy a \<longrightarrow> apiOrigin e a = Inr ''null'') \<and>
   (truthy a \<longrightarrow>
      apiOrigin e a =
        (case toUri e a True of Inl err \<Rightarrow> Inl err | Inr apiUri \<Rightarrow> urlOrigin e apiUri))"
  by (simp add: apiOrigin_def)

theorem apiOrigin_null_or_origin_witness:
  "apiOrigin env0 (JStr []) = Inr ''null'' \<and>
   apiOrigin env0 (JObj 0 ''/ip4/127.0.0.1/tcp/5001'') = Inr ''http://127.0.0.1:5001''"
  using apiOrigin_null_or_origin [where e = env0 and a = "JObj 0 ''/ip4/127.0.0.1/tcp/5001''"]
  by (simp add: env0_def)

text \<open>
  C2: at every point of the module's lifetime at most one window exists, and it is the
  one the variable \<^verbatim>\<open>window\<close> refers to. While the variable refers to a window,
  \<^verbatim>\<open>getWindow\<close> returns that window and changes nothing; and no event, and no call of
  \<^verbatim>\<open>getWindow\<close>, creates a window unless the variable is \<^verbatim>\<open>null\<close>.
\<close>

theorem at_most_one_window:
  assumes "reachable e s"
  shows "length (live s) \<le> 1 \<and>
         (\<forall>n \<in> set (live s). window s = Some n) \<and>
         (\<forall>w waiting. window s = Some w \<longrightarrow> getWindow e waiting s = (Existing w, s)) \<and>
         (\<forall>waiting. created (snd (getWindow e waiting s)) \<noteq> created s \<longrightarrow> window s = None) \<and>
         (\<forall>ev. created (step e ev s) \<noteq> created s \<longrightarrow> window s = None)"
proof -
  from assms have i: "invariant e s" by (rule reachable_invariant)
  have one: "length (live s) \<le> 1"
  proof (cases "live s")
    case (Cons n ns)
    then have "n \<in> set (live s)" by simp
    from live_is_window [OF i this] show ?thesis by simp
  qed simp
  have own: "\<forall>n \<in> set (live s). window s = Some n"
    using i by (simp add: invariant_def)
  have same: "\<forall>w waiting. window s = Some w \<longrightarrow> getWindow e waiting s = (Existing w, s)"
    by (simp add: getWindow_existing)
  have get: "\<forall>waiting. created (snd (getWindow e waiting s)) \<noteq> created s \<longrightarrow> window s = None"
    by (cases "window s") (simp_all add: getWindow_existing)
  have ev: "\<forall>ev. created (step e ev s) \<noteq> created s \<longrightarrow> window s = None"
    using step_created [OF i] by (cases "window s") auto
  from one own same get ev show ?thesis by blast
qed

theorem at_most_one_window_witness:
  "length (live (run env0 [GetWebUI] (init env0 settings0))) \<le> 1 \<and>
   getWindow env0 [] (run env0 [GetWebUI] (init env0 settings0)) =
     (Existing 0, run env0 [GetWebUI] (init env0 settings0)) \<and>
   created (step env0 GetWebUI (run env0 [GetWebUI] (init env0 settings0))) = 1 \<and>
   created (step env0 GetWebUI (run env0 [] (init env0 settings0))) = 1 \<and>
   window (run env0 [] (init env0 settings0)) = None"
proof -
  have n: "created (step env0 GetWebUI (run env0 [] (init env0 settings0))) \<noteq>
           created (run env0 [] (init env0 settings0))"
    using after_GetWebUI by (simp add: run_def init_def)
  from at_most_one_window [OF reachable_run [of env0 "[]" settings0]] n
  have "window (run env0 [] (init env0 settings0)) = None" by blast
  with at_most_one_window [OF reachable_run [of env0 "[GetWebUI]" settings0]] after_GetWebUI
  show ?thesis by (auto simp: run_def)
qed

text \<open>
  C3: the code breaks this property. Its comment says that a returned
  \<^verbatim>\<open>Access-Control-Allow-Origin\<close> header is overridden to match the page's origin, and
  header names are case-insensitive, but the handler looks only for the exact name. A
  response that carries the header as \<^verbatim>\<open>access-control-allow-origin\<close> is passed on with
  its upstream value, alone or next to the header under the exact name, while the same
  header under the exact name is overridden.
\<close>

theorem acao_other_spelling_kept:
  "onHeadersReceived (Some [(''access-control-allow-origin'', [''*''])]) =
     Some [(''access-control-allow-origin'', HArr [''*''])] \<and>
   onHeadersReceived (Some [(''Access-Control-Allow-Origin'', [''*''])]) =
     Some [(''Access-Control-Allow-Origin'', HStr ''webui://-'')] \<and>
   onHeadersReceived (Some [(''Access-Control-Allow-Origin'', [''http://127.0.0.1:5001'']),
                            (''access-control-allow-origin'', [''*''])]) =
     Some [(''Access-Control-Allow-Origin'', HStr ''webui://-''),
           (''access-control-allow-origin'', HArr [''*''])]"
  by (simp add: onHeadersReceived_def acao_def webuiOrigin_def)

text \<open>
  C4, as stated, fails: with no window, a daemon-status query that reports a new
  address updates the URL object and loads nothing.
\<close>

theorem ipfsd_without_window_no_load:
  "apiAddr \<lparr>apiAddr = JStr ''/ip4/127.0.0.1/tcp/5001''\<rparr> \<noteq> apiAddress (init env0 settings0) \<and>
   searchParams_get ''api''
     (url (step env0 (Ipfsd (Some \<lparr>apiAddr = JStr ''/ip4/127.0.0.1/tcp/5001''\<rparr>))
        (init env0 settings0))) = Some ''/ip4/127.0.0.1/tcp/5001'' \<and>
   effects (step env0 (Ipfsd (Some \<lparr>apiAddr = JStr ''/ip4/127.0.0.1/tcp/5001''\<rparr>))
        (init env0 settings0)) = effects (init env0 settings0)"
  by (simp add: step_def onIpfsd_def init_def Let_def updateLanguage_def searchParams_get_def
                searchParams_set_def update_conv')

text \<open>
  C4, amended: whenever the daemon-status query reports an API address different from
  the remembered one, the address is remembered, the \<^verbatim>\<open>api\<close> query parameter of the URL
  object is set to it, and, if the variable \<^verbatim>\<open>window\<close> refers to a window, the updated URL
  is loaded into that window; with no window nothing is loaded.
\<close>

theorem ipfsd_new_address:
  assumes "apiAddr d \<noteq> apiAddress s"
  shows "apiAddress (step e (Ipfsd (Some d)) s) = apiAddr d \<and>
         searchParams_get ''api'' (url (step e (Ipfsd (Some d)) s)) = Some (toStr (apiAddr d)) \<and>
         (\<forall>w. window s = Some w \<longrightarrow>
            effects (step e (Ipfsd (Some d)) s) =
              effects s @ [LoadURL w (url (step e (Ipfsd (Some d)) s))]) \<and>
         (window s = None \<longrightarrow> effects (step e (Ipfsd (Some d)) s) = effects s) \<and>
         window (step e (Ipfsd (Some d)) s) = window s"
  using assms
  by (auto simp: step_def onIpfsd_def Let_def updateLanguage_def emit_def searchParams_get_def
                 searchParams_set_def update_conv' split: option.splits)

theorem ipfsd_new_address_witness:
  "searchParams_get ''api''
     (url (step env0 (Ipfsd (Some \<lparr>apiAddr = JObj 7 ''/ip4/127.0.0.1/tcp/5001''\<rparr>))
        (run env0 [GetWebUI] (init env0 settings0)))) = Some ''/ip4/127.0.0.1/tcp/5001'' \<and>
   effects (step env0 (Ipfsd (Some \<lparr>apiAddr = JObj 7 ''/ip4/127.0.0.1/tcp/5001''\<rparr>))
        (run env0 [GetWebUI] (init env0 settings0))) =
     effects (run env0 [GetWebUI] (init env0 settings0)) @
       [LoadURL 0 (url (step env0 (Ipfsd (Some \<lparr>apiAddr = JObj 7 ''/ip4/127.0.0.1/tcp/5001''\<rparr>))
          (run env0 [GetWebUI] (init env0 settings0))))] \<and>
   apiAddress (step env0 (Ipfsd (Some \<lparr>apiAddr = JStr ''/ip4/127.0.0.1/tcp/5001''\<rparr>))
        (init env0 settings0)) = JStr ''/ip4/127.0.0.1/tcp/5001'' \<and>
   effects (step env0 (Ipfsd (Some \<lparr>apiAddr = JStr ''/ip4/127.0.0.1/tcp/5001''\<rparr>))
        (init env0 settings0)) = [OpenExternal]"
  using ipfsd_new_address [where e = env0 and s = "run env0 [GetWebUI] (init env0 settings0)"
          and d = "\<lparr>apiAddr = JObj 7 ''/ip4/127.0.0.1/tcp/5001''\<rparr>"]
        ipfsd_new_address [where e = env0 and s = "init env0 settings0"
          and d = "\<lparr>apiAddr = JStr ''/ip4/127.0.0.1/tcp/5001''\<rparr>"]
  by (simp add: after_GetWebUI) (simp add: init_def)

text \<open>
  C5: for every outgoing request the handler answers with \<^verbatim>\<open>cancel: false\<close> and with the
  request's headers, in which \<^verbatim>\<open>Origin\<close> is what \<^verbatim>\<open>apiOrigin(apiAddress)\<close> returned
  (\<^verbatim>\<open>'null'\<close> when no address is remembered) and \<^verbatim>\<open>User-Agent\<close> is
  \<^verbatim>\<open>ipfs-desktop/VERSION (Electron ELECTRON_VERSION)\<close>; the other headers are untouched.
  It never answers with a cancellation; when \<^verbatim>\<open>apiOrigin\<close> throws it does not answer.
\<close>

theorem onBeforeSendHeaders_sets_origin:
  "(apiOrigin e (apiAddress s) = Inr origin \<longrightarrow>
      (\<exists>r. onBeforeSendHeaders e s hs = Inr r \<and>
           map_of (requestHeaders r) ''Origin'' = Some origin \<and>
           map_of (requestHeaders r) ''User-Agent'' =
             Some (''ipfs-desktop/'' @ VERSION e @ '' (Electron '' @ ELECTRON_VERSION e @ '')'') \<and>
           (\<forall>k. k \<noteq> ''Origin'' \<and> k \<noteq> ''User-Agent'' \<longrightarrow>
                map_of (requestHeaders r) k = map_of hs k) \<and>
           \<not> cancel r)) \<and>
   (\<forall>r. onBeforeSendHeaders e s hs = Inr r \<longrightarrow> \<not> cancel r) \<and>
   (\<forall>err. apiOrigin e (apiAddress s) = Inl err \<longrightarrow> onBeforeSendHeaders e s hs = Inl err) \<and>
   (\<not> truthy (apiAddress s) \<longrightarrow>
      (\<exists>r. onBeforeSendHeaders e s hs = Inr r \<and>
           map_of (requestHeaders r) ''Origin'' = Some ''null''))"
  by (auto simp: onBeforeSendHeaders_def userAgent_def update_conv' apiOrigin_def split: sum.splits)

theorem onBeforeSendHeaders_sets_origin_witness:
  "(\<exists>r. onBeforeSendHeaders env0 (init env0 settings0)
          [(''Accept'', ''*/*''), (''Origin'', ''webui://-'')] = Inr r \<and>
       map_of (requestHeaders r) ''Origin'' = Some ''null'' \<and>
       map_of (requestHeaders r) ''User-Agent'' = Some ''ipfs-desktop/0.13.2 (Electron 11.1.1)'' \<and>
       map_of (requestHeaders r) ''Accept'' = Some ''*/*'' \<and>
       \<not> cancel r) \<and>
   (\<exists>r. onBeforeSendHeaders env0
          (run env0 [Ipfsd (Some \<lparr>apiAddr = JObj 7 ''/ip4/127.0.0.1/tcp/5001''\<rparr>)]
             (init env0 settings0)) [] = Inr r \<and>
       map_of (requestHeaders r) ''Origin'' = Some ''http://127.0.0.1:5001'' \<and>
       \<not> cancel r) \<and>
   onBeforeSendHeaders env0 ((init env0 settings0)\<lparr>apiAddress := JStr ''bogus''\<rparr>) [] =
     Inl (LibraryError ''toUri'')"
proof -
  have a: "apiOrigin env0 (apiAddress (init env0 settings0)) = Inr ''null''"
    by (simp add: apiOrigin_def init_def)
  have b: "apiOrigin env0 (apiAddress
             (run env0 [Ipfsd (Some \<lparr>apiAddr = JObj 7 ''/ip4/127.0.0.1/tcp/5001''\<rparr>)]
                (init env0 settings0))) = Inr ''http://127.0.0.1:5001''"
    by (simp add: after_Ipfsd apiOrigin_def env0_fields)
  have c: "apiOrigin env0 (apiAddress ((init env0 settings0)\<lparr>apiAddress := JStr ''bogus''\<rparr>)) =
             Inl (LibraryError ''toUri'')"
    by (simp add: apiOrigin_def env0_fields)
  from onBeforeSendHeaders_sets_origin [where e = env0 and s = "init env0 settings0"
          and origin = "''null''" and hs = "[(''Accept'', ''*/*''), (''Origin'', ''webui://-'')]",
          THEN conjunct1, THEN mp, OF a]
  obtain r where r: "onBeforeSendHeaders env0 (init env0 settings0)
          [(''Accept'', ''*/*''), (''Origin'', ''webui://-'')] = Inr r"
       "map_of (requestHeaders r) ''Origin'' = Some ''null''"
       "map_of (requestHeaders r) ''User-Agent'' =
          Some (''ipfs-desktop/'' @ VERSION env0 @ '' (Electron '' @ ELECTRON_VERSION env0 @ '')'')"
       "\<forall>k. k \<noteq> ''Origin'' \<and> k \<noteq> ''User-Agent'' \<longrightarrow>
            map_of (requestHeaders r) k =
            map_of [(''Accept'', ''*/*''), (''Origin'', ''webui://-'')] k"
       "\<not> cancel r"
    by blast
  from r(4) have acc: "map_of (requestHeaders r) ''Accept'' = Some ''*/*''" by simp
  from r(3) have ua: "map_of (requestHeaders r) ''User-Agent'' =
      Some ''ipfs-desktop/0.13.2 (Electron 11.1.1)''" by (simp add: env0_fields)
  from r(1) r(2) ua acc r(5)
  have 1: "\<exists>r. onBeforeSendHeaders env0 (init env0 settings0)
          [(''Accept'', ''*/*''), (''Origin'', ''webui://-'')] = Inr r \<and>
       map_of (requestHeaders r) ''Origin'' = Some ''null'' \<and>
       map_of (requestHeaders r) ''User-Agent'' = Some ''ipfs-desktop/0.13.2 (Electron 11.1.1)'' \<and>
       map_of (requestHeaders r) ''Accept'' = Some ''*/*'' \<and>
       \<not> cancel r"
    by (intro exI [of _ r]) simp
  from onBeforeSendHeaders_sets_origin [where e = env0
          and s = "run env0 [Ipfsd (Some \<lparr>apiAddr = JObj 7 ''/ip4/127.0.0.1/tcp/5001''\<rparr>)]
                     (init env0 settings0)"
          and origin = "''http://127.0.0.1:5001''" and hs = "[]",
          THEN conjunct1, THEN mp, OF b]
  obtain r' where r': "onBeforeSendHeaders env0
          (run env0 [Ipfsd (Some \<lparr>apiAddr = JObj 7 ''/ip4/127.0.0.1/tcp/5001''\<rparr>)]
             (init env0 settings0)) [] = Inr r'"
       "map_of (requestHeaders r') ''Origin'' = Some ''http://127.0.0.1:5001''"
       "\<not> cancel r'"
    by blast
  then have 2: "\<exists>r. onBeforeSendHeaders env0
          (run env0 [Ipfsd (Some \<lparr>apiAddr = JObj 7 ''/ip4/127.0.0.1/tcp/5001''\<rparr>)]
             (init env0 settings0)) [] = Inr r \<and>
       map_of (requestHeaders r) ''Origin'' = Some ''http://127.0.0.1:5001'' \<and>
       \<not> cancel r"
    by (intro exI [of _ r']) simp
  from onBeforeSendHeaders_sets_origin [where e = env0
          and s = "(init env0 settings0)\<lparr>apiAddress := JStr ''bogus''\<rparr>" and hs = "[]",
          THEN conjunct2, THEN conjunct2, THEN conjunct1, rule_format, OF c]
  have 3: "onBeforeSendHeaders env0 ((init env0 settings0)\<lparr>apiAddress := JStr ''bogus''\<rparr>) [] =
     Inl (LibraryError ''toUri'')" .
  from 1 2 3 show ?thesis by (intro conjI)
qed




text \<open>
  C7, as stated, fails: the daemon reports its address as a Multiaddr object, and
  \<^verbatim>\<open>!==\<close> compares objects by identity. A report that carries the remembered address in
  another object of the same text replaces the remembered address and loads the URL
  again.
\<close>

theorem ipfsd_equal_text_reloads:
  "toStr (apiAddr \<lparr>apiAddr = JObj 8 ''/ip4/127.0.0.1/tcp/5001''\<rparr>) =
     toStr (apiAddress (run env0
       [GetWebUI, Ipfsd (Some \<lparr>apiAddr = JObj 7 ''/ip4/127.0.0.1/tcp/5001''\<rparr>)]
       (init env0 settings0))) \<and>
   apiAddress (step env0 (Ipfsd (Some \<lparr>apiAddr = JObj 8 ''/ip4/127.0.0.1/tcp/5001''\<rparr>))
     (run env0 [GetWebUI, Ipfsd (Some \<lparr>apiAddr = JObj 7 ''/ip4/127.0.0.1/tcp/5001''\<rparr>)]
       (init env0 settings0))) = JObj 8 ''/ip4/127.0.0.1/tcp/5001'' \<and>
   effects (step env0 (Ipfsd (Some \<lparr>apiAddr = JObj 8 ''/ip4/127.0.0.1/tcp/5001''\<rparr>))
     (run env0 [GetWebUI, Ipfsd (Some \<lparr>apiAddr = JObj 7 ''/ip4/127.0.0.1/tcp/5001''\<rparr>)]
       (init env0 settings0))) =
     effects (run env0 [GetWebUI, Ipfsd (Some \<lparr>apiAddr = JObj 7 ''/ip4/127.0.0.1/tcp/5001''\<rparr>)]
       (init env0 settings0)) @
     [LoadURL 0 \<lparr>params = [(''deviceId'', ''device-1''), (''lng'', ''en''),
                           (''api'', ''/ip4/127.0.0.1/tcp/5001'')],
                hash = Some ''/blank''\<rparr>]"
  by (simp add: after_GetWebUI_Ipfsd step_def onIpfsd_def Let_def updateLanguage_def emit_def
                store_get_def searchParams_set_def)

text \<open>
  C7, amended: when the daemon-status query gives no daemon, or a daemon whose API
  address is identical to the remembered one (\<^verbatim>\<open>===\<close>: the same string, or the very same
  Multiaddr object), the handler changes nothing: the URL object, the remembered
  address, the window and the log of effects (so no load) are as before. An address
  that is not identical is remembered in place of the old one.
\<close>

theorem onIpfsd_same_address_noop:
  "onIpfsd None s = s \<and>
   step e (Ipfsd None) s = s \<and>
   (apiAddr d = apiAddress s \<longrightarrow> onIpfsd (Some d) s = s \<and> step e (Ipfsd (Some d)) s = s) \<and>
   (apiAddr d \<noteq> apiAddress s \<longrightarrow> apiAddress (step e (Ipfsd (Some d)) s) = apiAddr d)"
  by (simp add: onIpfsd_def step_def Let_def updateLanguage_def emit_def split: option.splits)

theorem onIpfsd_same_address_noop_witness:
  "step env0 (Ipfsd (Some \<lparr>apiAddr = JObj 7 ''/ip4/127.0.0.1/tcp/5001''\<rparr>))
     (run env0 [GetWebUI, Ipfsd (Some \<lparr>apiAddr = JObj 7 ''/ip4/127.0.0.1/tcp/5001''\<rparr>)]
        (init env0 settings0)) =
   run env0 [GetWebUI, Ipfsd (Some \<lparr>apiAddr = JObj 7 ''/ip4/127.0.0.1/tcp/5001''\<rparr>)]
     (init env0 settings0) \<and>
   step env0 (Ipfsd None)
     (run env0 [GetWebUI, Ipfsd (Some \<lparr>apiAddr = JObj 7 ''/ip4/127.0.0.1/tcp/5001''\<rparr>)]
        (init env0 settings0)) =
   run env0 [GetWebUI, Ipfsd (Some \<lparr>apiAddr = JObj 7 ''/ip4/127.0.0.1/tcp/5001''\<rparr>)]
     (init env0 settings0) \<and>
   apiAddress (step env0 (Ipfsd (Some \<lparr>apiAddr = JStr ''/ip4/127.0.0.1/tcp/5002''\<rparr>))
     (run env0 [GetWebUI, Ipfsd (Some \<lparr>apiAddr = JObj 7 ''/ip4/127.0.0.1/tcp/5001''\<rparr>)]
        (init env0 settings0))) = JStr ''/ip4/127.0.0.1/tcp/5002''"
proof -
  let ?r = "run env0 [GetWebUI, Ipfsd (Some \<lparr>apiAddr = JObj 7 ''/ip4/127.0.0.1/tcp/5001''\<rparr>)]
              (init env0 settings0)"
  have a: "apiAddr \<lparr>apiAddr = JObj 7 ''/ip4/127.0.0.1/tcp/5001''\<rparr> = apiAddress ?r"
    by (simp add: after_GetWebUI_Ipfsd)
  have b: "apiAddr \<lparr>apiAddr = JStr ''/ip4/127.0.0.1/tcp/5002''\<rparr> \<noteq> apiAddress ?r"
    by (simp add: after_GetWebUI_Ipfsd)
  from onIpfsd_same_address_noop [where s = ?r and e = env0
         and d = "\<lparr>apiAddr = JObj 7 ''/ip4/127.0.0.1/tcp/5001''\<rparr>"] a
  have 1: "step env0 (Ipfsd (Some \<lparr>apiAddr = JObj 7 ''/ip4/127.0.0.1/tcp/5001''\<rparr>)) ?r = ?r"
    and 2: "step env0 (Ipfsd None) ?r = ?r"
    by blast+
  from onIpfsd_same_address_noop [where s = ?r and e = env0
         and d = "\<lparr>apiAddr = JStr ''/ip4/127.0.0.1/tcp/5002''\<rparr>"] b
  have 3: "apiAddress (step env0 (Ipfsd (Some \<lparr>apiAddr = JStr ''/ip4/127.0.0.1/tcp/5002''\<rparr>)) ?r) =
             JStr ''/ip4/127.0.0.1/tcp/5002''"
    by simp
  from 1 2 3 show ?thesis by (intro conjI)
qed

text \<open>
  C8: the handlers of \<^verbatim>\<open>crashed\<close> and \<^verbatim>\<open>unresponsive\<close> append one error line to the log
  and do nothing else: the window reference, the URL, the remembered address, the
  settings and the windows are unchanged, nothing is thrown and nothing is retried.
\<close>

theorem crash_only_logs:
  "onCrashed x s = s\<lparr>effects := effects s @ [LogError (''[web ui] crashed: '' @ x)]\<rparr> \<and>
   onUnresponsive x s = s\<lparr>effects := effects s @ [LogError (''[web ui] unresponsive: '' @ x)]\<rparr> \<and>
   step e (Crashed n x) s = (if n \<in> set (live s) then onCrashed x s else s) \<and>
   step e (Unresponsive n x) s = (if n \<in> set (live s) then onUnresponsive x s else s) \<and>
   window (step e (Crashed n x) s) = window s \<and>
   window (step e (Unresponsive n x) s) = window s \<and>
   url (step e (Crashed n x) s) = url s \<and>
   url (step e (Unresponsive n x) s) = url s \<and>
   live (step e (Crashed n x) s) = live s \<and>
   live (step e (Unresponsive n x) s) = live s"
  by (simp add: onCrashed_def onUnresponsive_def emit_def step_def)

theorem crash_only_logs_witness:
  "step env0 (Crashed 0 ''[object Object]'') (step env0 GetWebUI (init env0 settings0)) =
     (step env0 GetWebUI (init env0 settings0))
       \<lparr>effects := effects (step env0 GetWebUI (init env0 settings0)) @
                     [LogError ''[web ui] crashed: [object Object]'']\<rparr>"
proof -
  have "0 \<in> set (live (step env0 GetWebUI (init env0 settings0)))"
    by (simp add: step_def getWindow_def init_def createWindow_def Let_def emit_def
                  updateLanguage_def env0_def)
  with crash_only_logs [where e = env0 and n = 0 and x = "''[object Object]''"
         and s = "step env0 GetWebUI (init env0 settings0)"]
  show ?thesis by simp
qed

text \<open>
  C9, as stated, fails: once the application's \<^verbatim>\<open>before-quit\<close> has removed the window's
  \<^verbatim>\<open>close\<close> listeners, the window closes without the variable being reset, and
  \<^verbatim>\<open>getWindow\<close> returns the closed window.
\<close>

theorem close_after_before_quit:
  "window (run env0 [GetWebUI, BeforeQuit, Close 0] (init env0 settings0)) = Some 0 \<and>
   live (run env0 [GetWebUI, BeforeQuit, Close 0] (init env0 settings0)) = [] \<and>
   fst (getWindow env0 [] (run env0 [GetWebUI, BeforeQuit, Close 0] (init env0 settings0))) =
     Existing 0"
proof -
  have q: "run env0 [GetWebUI, BeforeQuit] (init env0 settings0) =
             (run env0 [GetWebUI] (init env0 settings0))\<lparr>closeListeners := []\<rparr>"
    using run_snoc [of env0 "[GetWebUI]" BeforeQuit "init env0 settings0"]
    by (simp add: after_GetWebUI step_def onBeforeQuit_def)
  have c: "run env0 [GetWebUI, BeforeQuit, Close 0] (init env0 settings0) =
             destroy 0 (run env0 [GetWebUI, BeforeQuit] (init env0 settings0))"
    using run_snoc [of env0 "[GetWebUI, BeforeQuit]" "Close 0" "init env0 settings0"]
    by (simp add: q after_GetWebUI step_def closeWindow_current)
  show ?thesis
    by (simp add: c q after_GetWebUI destroy_def getWindow_existing)
qed

text \<open>
  C9, amended: after the close event of a window whose \<^verbatim>\<open>close\<close> listener is still
  attached (the application's \<^verbatim>\<open>before-quit\<close> has not removed it), the variable
  \<^verbatim>\<open>window\<close> is \<^verbatim>\<open>null\<close> and no window exists, so the next call of \<^verbatim>\<open>getWindow\<close> creates a
  window that was never created before and refers to it.
\<close>

theorem close_resets_window:
  assumes "reachable e s" and "n \<in> set (live s)" and "n \<in> set (closeListeners s)"
  shows "window (step e (Close n) s) = None \<and>
         live (step e (Close n) s) = [] \<and>
         (\<exists>s'. getWindow e waiting (step e (Close n) s) = (Creating (created s), s') \<and>
               n < created s \<and>
               window s' = Some (created s) \<and>
               live s' = [created s])"
proof -
  from assms(1) have i: "invariant e s" by (rule reachable_invariant)
  from live_is_window [OF i assms(2)] have w: "window s = Some n" and l: "live s = [n]"
    by simp_all
  from i w have lt: "n < created s" by (simp add: invariant_def)
  let ?c = "step e (Close n) s"
  have c: "window ?c = None \<and> live ?c = [] \<and> created ?c = created s"
    using assms(3) l
    by (simp add: step_def closeWindow_current [OF assms(2) w] destroy_def emit_def)
  then have "window ?c = None" by simp
  from getWindow_creating [OF this, of e waiting] c lt show ?thesis by auto
qed

theorem close_resets_window_witness:
  "window (step env0 (Close 0) (run env0 [GetWebUI] (init env0 settings0))) = None \<and>
   live (step env0 (Close 0) (run env0 [GetWebUI] (init env0 settings0))) = [] \<and>
   fst (getWindow env0 [] (step env0 (Close 0) (run env0 [GetWebUI] (init env0 settings0)))) =
     Creating 1"
  using close_resets_window [OF reachable_run [of env0 "[GetWebUI]" settings0], of 0 "[]"]
  by (auto simp: after_GetWebUI)

text \<open>
  C10: on the first run, when the stored \<^verbatim>\<open>openWebUIAtLaunch\<close> is absent (\<^verbatim>\<open>get\<close> with the
  default \<^verbatim>\<open>null\<close> gives \<^verbatim>\<open>null\<close>), the module sets it to \<^verbatim>\<open>true\<close>, and leaves the settings
  alone otherwise. The function it returns does nothing if the setting is not truthy
  when it runs. If it is truthy, the window is launched at the path \<^verbatim>\<open>/\<close>: an existing
  window is navigated to \<^verbatim>\<open>/\<close>, shown and focused and the dock is shown; with no window,
  one is created with its listeners and the URL is loaded, and once it is ready to show
  it is navigated to \<^verbatim>\<open>/\<close>, shown and focused, by the listener and again by the waiting
  call.
\<close>

theorem startup_launches_iff_setting:
  "(store_get st CONFIG_KEY JNull = JNull \<longrightarrow>
      store (init e st) = store_set CONFIG_KEY (JBool True) st \<and>
      store_get (store (init e st)) CONFIG_KEY JUndefined = JBool True) \<and>
   (store_get st CONFIG_KEY JNull \<noteq> JNull \<longrightarrow> store (init e st) = st) \<and>
   step e Startup s = startup e s \<and>
   (\<not> truthy (store_get (store s) CONFIG_KEY JUndefined) \<longrightarrow> startup e s = s) \<and>
   (truthy (store_get (store s) CONFIG_KEY JUndefined) \<longrightarrow>
      (\<forall>w. window s = Some w \<longrightarrow>
         startup e s =
           s\<lparr>url := (url s)\<lparr>hash := Some ''/''\<rparr>,
             effects := effects s @
               [LogInfo ''[web ui] navigate to /'',
                LoadURL w ((url s)\<lparr>hash := Some ''/''\<rparr>),
                Show w, Focus w, DockShow,
                LoadURL w ((url s)\<lparr>hash := Some ''/''\<rparr>)]\<rparr>) \<and>
      (window s = None \<longrightarrow>
         startup e s =
           s\<lparr>window := Some (created s),
             live := created s # live s,
             created := Suc (created s),
             closeListeners := created s # closeListeners s,
             readyListeners := (created s, [LaunchFrame (JStr ''/'') True False]) # readyListeners s,
             url := searchParams_set ''lng'' (store_get (store s) ''language'' JUndefined) (url s),
             effects := effects s @
               [NewWindow (created s)
                  (store_get (store s) ''window.width''
                     (JNum (if displayWidth e < 1440 then displayWidth e else 1440)))
                  (store_get (store s) ''window.height''
                     (JNum (if displayHeight e < 900 then displayHeight e else 900)))] @
               (if debugDevTools e then [OpenDevTools (created s)] else []) @
               [LoadURL (created s)
                  (searchParams_set ''lng'' (store_get (store s) ''language'' JUndefined) (url s))]\<rparr> \<and>
         step e (ReadyToShow (created s)) (startup e s) =
           (startup e s)
            \<lparr>readyListeners := AList.delete (created s) (readyListeners s),
             url := (url (startup e s))\<lparr>hash := Some ''/''\<rparr>,
             effects := effects (startup e s) @
               [LogInfo ''[web ui] window ready'',
                LogInfo ''[web ui] navigate to /'',
                LoadURL (created s) ((url (startup e s))\<lparr>hash := Some ''/''\<rparr>),
                Show (created s), Focus (created s), DockShow,
                LoadURL (created s) ((url (startup e s))\<lparr>hash := Some ''/''\<rparr>),
                LogInfo ''[web ui] navigate to /'',
                LoadURL (created s) ((url (startup e s))\<lparr>hash := Some ''/''\<rparr>),
                Show (created s), Focus (created s), DockShow,
                LoadURL (created s) ((url (startup e s))\<lparr>hash := Some ''/''\<rparr>)]\<rparr>))"
proof -
  have i1: "store_get st CONFIG_KEY JNull = JNull \<longrightarrow>
      store (init e st) = store_set CONFIG_KEY (JBool True) st \<and>
      store_get (store (init e st)) CONFIG_KEY JUndefined = JBool True"
    by (simp add: init_def store_get_def store_set_def update_conv')
  have i2: "store_get st CONFIG_KEY JNull \<noteq> JNull \<longrightarrow> store (init e st) = st"
    by (simp add: init_def)
  have st: "step e Startup s = startup e s" by (simp add: step_def)
  have no: "\<not> truthy (store_get (store s) CONFIG_KEY JUndefined) \<longrightarrow> startup e s = s"
    by (simp add: startup_def)
  have ex: "startup e s =
           s\<lparr>url := (url s)\<lparr>hash := Some ''/''\<rparr>,
             effects := effects s @
               [LogInfo ''[web ui] navigate to /'',
                LoadURL w ((url s)\<lparr>hash := Some ''/''\<rparr>),
                Show w, Focus w, DockShow,
                LoadURL w ((url s)\<lparr>hash := Some ''/''\<rparr>)]\<rparr>"
    if "truthy (store_get (store s) CONFIG_KEY JUndefined)" and "window s = Some w" for w
    using that
    by (simp add: startup_def launchWindow_def getWindow_def launchBody_def Let_def emit_def
                  set_hash_root)
  have cr: "startup e s =
           s\<lparr>window := Some (created s),
             live := created s # live s,
             created := Suc (created s),
             closeListeners := created s # closeListeners s,
             readyListeners := (created s, [LaunchFrame (JStr ''/'') True False]) # readyListeners s,
             url := searchParams_set ''lng'' (store_get (store s) ''language'' JUndefined) (url s),
             effects := effects s @
               [NewWindow (created s)
                  (store_get (store s) ''window.width''
                     (JNum (if displayWidth e < 1440 then displayWidth e else 1440)))
                  (store_get (store s) ''window.height''
                     (JNum (if displayHeight e < 900 then displayHeight e else 900)))] @
               (if debugDevTools e then [OpenDevTools (created s)] else []) @
               [LoadURL (created s)
                  (searchParams_set ''lng'' (store_get (store s) ''language'' JUndefined) (url s))]\<rparr>"
    if "truthy (store_get (store s) CONFIG_KEY JUndefined)" and "window s = None"
    using that
    by (simp add: startup_def launchWindow_def getWindow_def createWindow_def Let_def emit_def
                  updateLanguage_def)
  have rd: "step e (ReadyToShow (created s)) (startup e s) =
           (startup e s)
            \<lparr>readyListeners := AList.delete (created s) (readyListeners s),
             url := (url (startup e s))\<lparr>hash := Some ''/''\<rparr>,
             effects := effects (startup e s) @
               [LogInfo ''[web ui] window ready'',
                LogInfo ''[web ui] navigate to /'',
                LoadURL (created s) ((url (startup e s))\<lparr>hash := Some ''/''\<rparr>),
                Show (created s), Focus (created s), DockShow,
                LoadURL (created s) ((url (startup e s))\<lparr>hash := Some ''/''\<rparr>),
                LogInfo ''[web ui] navigate to /'',
                LoadURL (created s) ((url (startup e s))\<lparr>hash := Some ''/''\<rparr>),
                Show (created s), Focus (created s), DockShow,
                LoadURL (created s) ((url (startup e s))\<lparr>hash := Some ''/''\<rparr>)]\<rparr>"
    if t: "truthy (store_get (store s) CONFIG_KEY JUndefined)" and n: "window s = None"
    unfolding cr [OF t n]
    by (simp add: step_def onReadyToShow_def launchWindow_def getWindow_def launchBody_def
                  Let_def emit_def set_hash_root delete_head)
  from i1 i2 st no ex cr rd show ?thesis by blast
qed

theorem startup_launches_iff_setting_witness:
  "store (init env0 settings0) =
     [(''language'', JStr ''en''), (''openWebUIAtLaunch'', JBool True)] \<and>
   effects (startup env0 (init env0 settings0)) =
     [OpenExternal, NewWindow 0 (JNum 1440) (JNum 900),
      LoadURL 0 \<lparr>params = [(''deviceId'', ''device-1''), (''lng'', ''en'')],
                 hash = Some ''/blank''\<rparr>] \<and>
   live (startup env0 (init env0 settings0)) = [0] \<and>
   effects (step env0 (ReadyToShow 0) (startup env0 (init env0 settings0))) =
     [OpenExternal, NewWindow 0 (JNum 1440) (JNum 900),
      LoadURL 0 \<lparr>params = [(''deviceId'', ''device-1''), (''lng'', ''en'')],
                 hash = Some ''/blank''\<rparr>,
      LogInfo ''[web ui] window ready'',
      LogInfo ''[web ui] navigate to /'',
      LoadURL 0 \<lparr>params = [(''deviceId'', ''device-1''), (''lng'', ''en'')], hash = Some ''/''\<rparr>,
      Show 0, Focus 0, DockShow,
      LoadURL 0 \<lparr>params = [(''deviceId'', ''device-1''), (''lng'', ''en'')], hash = Some ''/''\<rparr>,
      LogInfo ''[web ui] navigate to /'',
      LoadURL 0 \<lparr>params = [(''deviceId'', ''device-1''), (''lng'', ''en'')], hash = Some ''/''\<rparr>,
      Show 0, Focus 0, DockShow,
      LoadURL 0 \<lparr>params = [(''deviceId'', ''device-1''), (''lng'', ''en'')], hash = Some ''/''\<rparr>] \<and>
   effects (startup env0 (run env0 [GetWebUI] (init env0 settings0))) =
     [OpenExternal, NewWindow 0 (JNum 1440) (JNum 900),
      LoadURL 0 \<lparr>params = [(''deviceId'', ''device-1''), (''lng'', ''en'')],
                 hash = Some ''/blank''\<rparr>,
      LogInfo ''[web ui] navigate to /'',
      LoadURL 0 \<lparr>params = [(''deviceId'', ''device-1''), (''lng'', ''en'')], hash = Some ''/''\<rparr>,
      Show 0, Focus 0, DockShow,
      LoadURL 0 \<lparr>params = [(''deviceId'', ''device-1''), (''lng'', ''en'')], hash = Some ''/''\<rparr>] \<and>
   startup env0 (init env0 [(''openWebUIAtLaunch'', JBool False)]) =
     init env0 [(''openWebUIAtLaunch'', JBool False)]"
proof -
  note t0 = startup_launches_iff_setting [where e = env0 and st = settings0
              and s = "init env0 settings0"]
  note t1 = startup_launches_iff_setting [where e = env0 and st = settings0
              and s = "run env0 [GetWebUI] (init env0 settings0)"]
  note t2 = startup_launches_iff_setting [where e = env0
              and st = "[(''openWebUIAtLaunch'', JBool False)]"
              and s = "init env0 [(''openWebUIAtLaunch'', JBool False)]"]
  have a: "store (init env0 settings0) =
     [(''language'', JStr ''en''), (''openWebUIAtLaunch'', JBool True)]"
    using t0 by (simp add: settings0_def store_get_def store_set_def CONFIG_KEY_def)
  have tr0: "truthy (store_get (store (init env0 settings0)) CONFIG_KEY JUndefined)"
    by (simp add: init_env0 store_get_def CONFIG_KEY_def)
  have w0: "window (init env0 settings0) = None" by (simp add: init_env0)
  from t0 tr0 w0 have
    b: "startup env0 (init env0 settings0) =
          (init env0 settings0)\<lparr>window := Some (created (init env0 settings0)),
             live := created (init env0 settings0) # live (init env0 settings0),
             created := Suc (created (init env0 settings0)),
             closeListeners := created (init env0 settings0) # closeListeners (init env0 settings0),
             readyListeners := (created (init env0 settings0), [LaunchFrame (JStr ''/'') True False])
                # readyListeners (init env0 settings0),
             url := searchParams_set ''lng''
                (store_get (store (init env0 settings0)) ''language'' JUndefined)
                (url (init env0 settings0)),
             effects := effects (init env0 settings0) @
               [NewWindow (created (init env0 settings0))
                  (store_get (store (init env0 settings0)) ''window.width''
                     (JNum (if displayWidth env0 < 1440 then displayWidth env0 else 1440)))
                  (store_get (store (init env0 settings0)) ''window.height''
                     (JNum (if displayHeight env0 < 900 then displayHeight env0 else 900)))] @
               (if debugDevTools env0 then [OpenDevTools (created (init env0 settings0))] else []) @
               [LoadURL (created (init env0 settings0))
                  (searchParams_set ''lng''
                     (store_get (store (init env0 settings0)) ''language'' JUndefined)
                     (url (init env0 settings0)))]\<rparr>"
    by blast
  have b': "startup env0 (init env0 settings0) =
     \<lparr>window = Some 0, apiAddress = JNull,
      url = \<lparr>params = [(''deviceId'', ''device-1''), (''lng'', ''en'')], hash = Some ''/blank''\<rparr>,
      store = [(''language'', JStr ''en''), (''openWebUIAtLaunch'', JBool True)],
      live = [0], created = 1, closeListeners = [0],
      readyListeners = [(0, [LaunchFrame (JStr ''/'') True False])],
      effects = [OpenExternal, NewWindow 0 (JNum 1440) (JNum 900),
                 LoadURL 0 \<lparr>params = [(''deviceId'', ''device-1''), (''lng'', ''en'')],
                            hash = Some ''/blank''\<rparr>]\<rparr>"
    unfolding b by (simp add: init_env0 env0_fields store_get_def searchParams_set_def)
  from t0 tr0 w0 have
    c: "step env0 (ReadyToShow (created (init env0 settings0))) (startup env0 (init env0 settings0)) =
           (startup env0 (init env0 settings0))
            \<lparr>readyListeners := AList.delete (created (init env0 settings0))
                (readyListeners (init env0 settings0)),
             url := (url (startup env0 (init env0 settings0)))\<lparr>hash := Some ''/''\<rparr>,
             effects := effects (startup env0 (init env0 settings0)) @
               [LogInfo ''[web ui] window ready'',
                LogInfo ''[web ui] navigate to /'',
                LoadURL (created (init env0 settings0))
                  ((url (startup env0 (init env0 settings0)))\<lparr>hash := Some ''/''\<rparr>),
                Show (created (init env0 settings0)), Focus (created (init env0 settings0)), DockShow,
                LoadURL (created (init env0 settings0))
                  ((url (startup env0 (init env0 settings0)))\<lparr>hash := Some ''/''\<rparr>),
                LogInfo ''[web ui] navigate to /'',
                LoadURL (created (init env0 settings0))
                  ((url (startup env0 (init env0 settings0)))\<lparr>hash := Some ''/''\<rparr>),
                Show (created (init env0 settings0)), Focus (created (init env0 settings0)), DockShow,
                LoadURL (created (init env0 settings0))
                  ((url (startup env0 (init env0 settings0)))\<lparr>hash := Some ''/''\<rparr>)]\<rparr>"
    by blast
  have c0: "created (init env0 settings0) = 0" by (simp add: init_env0)
  have c': "effects (step env0 (ReadyToShow 0) (startup env0 (init env0 settings0))) =
     [OpenExternal, NewWindow 0 (JNum 1440) (JNum 900),
      LoadURL 0 \<lparr>params = [(''deviceId'', ''device-1''), (''lng'', ''en'')],
                 hash = Some ''/blank''\<rparr>,
      LogInfo ''[web ui] window ready'',
      LogInfo ''[web ui] navigate to /'',
      LoadURL 0 \<lparr>params = [(''deviceId'', ''device-1''), (''lng'', ''en'')], hash = Some ''/''\<rparr>,
      Show 0, Focus 0, DockShow,
      LoadURL 0 \<lparr>params = [(''deviceId'', ''device-1''), (''lng'', ''en'')], hash = Some ''/''\<rparr>,
      LogInfo ''[web ui] navigate to /'',
      LoadURL 0 \<lparr>params = [(''deviceId'', ''device-1''), (''lng'', ''en'')], hash = Some ''/''\<rparr>,
      Show 0, Focus 0, DockShow,
      LoadURL 0 \<lparr>params = [(''deviceId'', ''device-1''), (''lng'', ''en'')], hash = Some ''/''\<rparr>]"
    using c unfolding c0 by (simp add: b')
  have tr1: "truthy (store_get (store (run env0 [GetWebUI] (init env0 settings0))) CONFIG_KEY JUndefined)"
    by (simp add: after_GetWebUI store_get_def CONFIG_KEY_def)
  have w1: "window (run env0 [GetWebUI] (init env0 settings0)) = Some 0"
    by (simp add: after_GetWebUI)
  from t1 tr1 w1 have
    d: "startup env0 (run env0 [GetWebUI] (init env0 settings0)) =
           (run env0 [GetWebUI] (init env0 settings0))
            \<lparr>url := (url (run env0 [GetWebUI] (init env0 settings0)))\<lparr>hash := Some ''/''\<rparr>,
             effects := effects (run env0 [GetWebUI] (init env0 settings0)) @
               [LogInfo ''[web ui] navigate to /'',
                LoadURL 0 ((url (run env0 [GetWebUI] (init env0 settings0)))\<lparr>hash := Some ''/''\<rparr>),
                Show 0, Focus 0, DockShow,
                LoadURL 0 ((url (run env0 [GetWebUI] (init env0 settings0)))\<lparr>hash := Some ''/''\<rparr>)]\<rparr>"
    by blast
  have d': "effects (startup env0 (run env0 [GetWebUI] (init env0 settings0))) =
     [OpenExternal, NewWindow 0 (JNum 1440) (JNum 900),
      LoadURL 0 \<lparr>params = [(''deviceId'', ''device-1''), (''lng'', ''en'')],
                 hash = Some ''/blank''\<rparr>,
      LogInfo ''[web ui] navigate to /'',
      LoadURL 0 \<lparr>params = [(''deviceId'', ''device-1''), (''lng'', ''en'')], hash = Some ''/''\<rparr>,
      Show 0, Focus 0, DockShow,
      LoadURL 0 \<lparr>params = [(''deviceId'', ''device-1''), (''lng'', ''en'')], hash = Some ''/''\<rparr>]"
    unfolding d by (simp add: after_GetWebUI)
  have f: "\<not> truthy (store_get (store (init env0 [(''openWebUIAtLaunch'', JBool False)]))
             CONFIG_KEY JUndefined)"
    by (simp add: init_def store_get_def CONFIG_KEY_def)
  with t2 have g: "startup env0 (init env0 [(''openWebUIAtLaunch'', JBool False)]) =
     init env0 [(''openWebUIAtLaunch'', JBool False)]" by blast
  from a b' c' d' g show ?thesis by simp
qed

end
